theory Spec2Isabelle
  imports Main "HOL-Library.Word"
begin

section \<open>Python values, exceptions and outcomes\<close>

text \<open>
  The two modules \<^verbatim>\<open>agstack/infra/db/__init__.py\<close> and
  \<^verbatim>\<open>agstack/infra/es/__init__.py\<close> only move argument values around and call
  into two third-party libraries. The values they handle are Python objects: \<open>None\<close>,
  booleans, unbounded integers, floats (kept as their IEEE-754 binary64 bit pattern,
  no arithmetic is done on them), strings, tuples and opaque objects of the libraries
  (connections, coroutine objects), identified by a number.
\<close>

datatype pyval =
    PNone
  | PBool bool
  | PInt int
  | PFloat "64 word"
  | PStr string
  | PTuple "pyval list"
  | PObj nat

text \<open>Keyword arguments, in the order in which the call passes them.\<close>

type_synonym kwargs = "(string \<times> pyval) list"

text \<open>
  \<open>TypeError\<close> is what the interpreter raises for a call that does not fit a
  signature; \<open>LibError\<close> stands for any other exception object.
\<close>

datatype exn = TypeError | LibError string

text \<open>
  How an evaluation ends: with a value, with an exception, or not at all
  (\<open>Pending\<close>: an awaitable that never resolves, a call that never comes back).
\<close>

datatype 'a outcome = Returned 'a | Raised exn | Pending

section \<open>The external libraries as an environment\<close>

text \<open>
  What is called: a library function, by its dotted name as the source writes it, or a
  method of an object.
\<close>

datatype target = Func string | Method pyval string

text \<open>
  The observable trace: every call that reaches a library, with its positional and
  keyword arguments and how it ended, and every \<open>await\<close>, with the awaited object,
  the number of times it suspended to the event loop and how it ended.
\<close>

datatype event =
    Call target "pyval list" kwargs "pyval outcome"
  | Await pyval nat "pyval outcome"

text \<open>
  \<open>sqlobjects.database\<close> and \<open>elasticsearch.dsl\<close> are not part of the repository.
  Their behaviour is a parameter: any function of the events so far.
  \<open>call_fn\<close> answers a call, \<open>await_fn\<close> drives an awaitable (a value that is not
  awaitable makes it raise), \<open>format_fn\<close> is \<open>format(v, '')\<close> of a value that is
  not a \<open>str\<close>.
\<close>

record env =
  call_fn :: "event list \<Rightarrow> target \<Rightarrow> pyval list \<Rightarrow> kwargs \<Rightarrow> pyval outcome"
  await_fn :: "event list \<Rightarrow> pyval \<Rightarrow> nat \<times> pyval outcome"
  format_fn :: "event list \<Rightarrow> pyval \<Rightarrow> string outcome"

section \<open>Coroutine bodies\<close>

text \<open>
  A body reads the events that happened before it and yields its outcome together with
  the events it adds. Statements run in sequence; an exception or a pending await ends
  the body at once.
\<close>

type_synonym 'a coro = "event list \<Rightarrow> 'a outcome \<times> event list"

definition py_return :: "'a \<Rightarrow> 'a coro" where
  "py_return x = (\<lambda>h. (Returned x, []))"

definition py_raise :: "exn \<Rightarrow> 'a coro" where
  "py_raise e = (\<lambda>h. (Raised e, []))"

definition py_then :: "'a coro \<Rightarrow> ('a \<Rightarrow> 'b coro) \<Rightarrow> 'b coro" where
  "py_then m f = (\<lambda>h.
     case m h of
       (Returned x, es) \<Rightarrow> (case f x (h @ es) of (r, es') \<Rightarrow> (r, es @ es'))
     | (Raised e, es) \<Rightarrow> (Raised e, es)
     | (Pending, es) \<Rightarrow> (Pending, es))"

text \<open>
  A call \<open>f(a, k=v, **d)\<close>: the keywords written out and the entries of \<open>d\<close> are
  merged; a name given twice is a \<open>TypeError\<close> at the call site and \<open>f\<close> is not
  entered.
\<close>

definition call_ext :: "env \<Rightarrow> target \<Rightarrow> pyval list \<Rightarrow> kwargs \<Rightarrow> kwargs \<Rightarrow> pyval coro" where
  "call_ext E t args kws star = (\<lambda>h.
     if distinct (map fst (kws @ star))
     then (let r = call_fn E h t args (kws @ star) in (r, [Call t args (kws @ star) r]))
     else (Raised TypeError, []))"

text \<open>\<open>await v\<close>: the body is suspended until \<open>v\<close> resolves.\<close>

definition await :: "env \<Rightarrow> pyval \<Rightarrow> pyval coro" where
  "await E v = (\<lambda>h. case await_fn E h v of (n, r) \<Rightarrow> (r, [Await v n r]))"

text \<open>
  An f-string is a sequence of literal pieces and replacement fields. A field holding a
  \<open>str\<close> contributes the string itself, character for character.
\<close>

datatype fpart = Lit string | Field pyval

definition format_value :: "env \<Rightarrow> pyval \<Rightarrow> string coro" where
  "format_value E v = (\<lambda>h.
     case v of PStr s \<Rightarrow> (Returned s, []) | _ \<Rightarrow> (format_fn E h v, []))"

fun fstring :: "env \<Rightarrow> fpart list \<Rightarrow> string coro" where
  "fstring E [] = py_return []"
| "fstring E (Lit s # ps) = py_then (fstring E ps) (\<lambda>rest. py_return (s @ rest))"
| "fstring E (Field v # ps) =
     py_then (format_value E v) (\<lambda>s.
     py_then (fstring E ps) (\<lambda>rest. py_return (s @ rest)))"

section \<open>Binding the arguments of a call to a signature\<close>

text \<open>
  The four functions have positional-or-keyword parameters only, some with defaults,
  and \<open>setup_db\<close> collects the remaining keywords in \<open>**engine_kwargs\<close>.
\<close>

record signature =
  params :: "(string \<times> pyval option) list"
  var_kw :: bool

fun fill :: "(string \<times> pyval option) list \<Rightarrow> pyval list \<Rightarrow> kwargs \<Rightarrow> kwargs option" where
  "fill [] as kws = Some []"
| "fill ((n, d) # ps) (a # as) kws = map_option ((#) (n, a)) (fill ps as kws)"
| "fill ((n, d) # ps) [] kws =
     (case (case map_of kws n of Some v \<Rightarrow> Some v | None \<Rightarrow> d) of
        None \<Rightarrow> None
      | Some v \<Rightarrow> map_option ((#) (n, v)) (fill ps [] kws))"

text \<open>
  \<open>bind_args\<close> gives the value of every parameter and the keywords left over for
  \<open>**kwargs\<close>, or the \<open>TypeError\<close> of the interpreter: too many positional arguments,
  a keyword given twice, a parameter given both by position and by keyword, an unknown
  keyword when there is no \<open>**kwargs\<close>, a parameter without default left out.
\<close>

definition bind_args :: "signature \<Rightarrow> pyval list \<Rightarrow> kwargs \<Rightarrow> exn + (kwargs \<times> kwargs)" where
  "bind_args sg args kws =
     (let names = map fst (params sg);
          extra = filter (\<lambda>kv. fst kv \<notin> set names) kws
      in if length names < length args then Inl TypeError
         else if \<not> distinct (map fst kws) then Inl TypeError
         else if list_ex (\<lambda>kv. fst kv \<in> set (take (length args) names)) kws then Inl TypeError
         else if \<not> var_kw sg \<and> extra \<noteq> [] then Inl TypeError
         else (case fill (params sg) args kws of
                 None \<Rightarrow> Inl TypeError
               | Some b \<Rightarrow> Inr (b, extra)))"

definition param :: "kwargs \<Rightarrow> string \<Rightarrow> pyval" where
  "param b n = the (map_of b n)"

text \<open>A parameter is omitted by a call that gives it neither by position nor by keyword.\<close>

definition omitted :: "signature \<Rightarrow> string \<Rightarrow> pyval list \<Rightarrow> kwargs \<Rightarrow> bool" where
  "omitted sg n args kws \<longleftrightarrow>
     n \<notin> set (take (length args) (map fst (params sg))) \<and> n \<notin> set (map fst kws)"

section \<open>The database helper\<close>

definition setup_db_sig :: signature where
  "setup_db_sig = \<lparr>params =
      [(''username'', None), (''password'', None), (''host'', None), (''database'', None),
       (''echo'', Some (PBool False)), (''pool_size'', Some (PInt 5)),
       (''max_overflow'', Some (PInt 10)), (''pool_timeout'', Some (PInt 30)),
       (''pool_recycle'', Some (PInt 3600))],
     var_kw = True\<rparr>"

definition db_url :: "pyval \<Rightarrow> pyval \<Rightarrow> pyval \<Rightarrow> pyval \<Rightarrow> fpart list" where
  "db_url username password host database =
     [Lit ''postgresql+asyncpg://'', Field username, Lit '':'', Field password,
      Lit ''@'', Field host, Lit ''/'', Field database]"

definition setup_db ::
  "env \<Rightarrow> pyval \<Rightarrow> pyval \<Rightarrow> pyval \<Rightarrow> pyval \<Rightarrow> pyval \<Rightarrow> pyval \<Rightarrow> pyval \<Rightarrow> pyval \<Rightarrow> pyval \<Rightarrow> kwargs
     \<Rightarrow> pyval coro" where
  "setup_db E username password host database echo pool_size max_overflow pool_timeout
       pool_recycle engine_kwargs =
     py_then (fstring E (db_url username password host database)) (\<lambda>url.
     py_then (call_ext E (Func ''init_db'') [PStr url]
                [(''echo'', echo), (''pool_size'', pool_size),
                 (''max_overflow'', max_overflow), (''pool_timeout'', pool_timeout),
                 (''pool_recycle'', pool_recycle)]
                engine_kwargs) (\<lambda>aw.
     py_then (await E aw) (\<lambda>_.
     py_return PNone)))"

definition shutdown_db_sig :: signature where
  "shutdown_db_sig = \<lparr>params = [], var_kw = False\<rparr>"

definition shutdown_db :: "env \<Rightarrow> pyval coro" where
  "shutdown_db E =
     py_then (call_ext E (Func ''close_db'') [] [] []) (\<lambda>aw.
     py_then (await E aw) (\<lambda>_.
     py_return PNone))"

section \<open>The search helper\<close>

definition setup_es_sig :: signature where
  "setup_es_sig = \<lparr>params =
      [(''host'', None), (''username'', None), (''password'', None),
       (''timeout'', Some (PInt 3)), (''sniff_on_start'', Some (PBool True)),
       (''sniff_timeout'', Some (PInt 3))],
     var_kw = False\<rparr>"

definition setup_es :: "env \<Rightarrow> pyval \<Rightarrow> pyval \<Rightarrow> pyval \<Rightarrow> pyval \<Rightarrow> pyval \<Rightarrow> pyval \<Rightarrow> pyval coro" where
  "setup_es E host username password timeout sniff_on_start sniff_timeout =
     py_then (call_ext E (Func ''async_connections.connections.create_connection'') []
                [(''hosts'', host), (''verify_certs'', PBool False),
                 (''request_timeout'', timeout), (''sniff_on_start'', sniff_on_start),
                 (''sniff_timeout'', sniff_timeout), (''sniff_on_node_failure'', PBool True),
                 (''http_auth'', PTuple [username, password])]
                []) (\<lambda>_.
     py_return PNone)"

definition shotdown_es_sig :: signature where
  "shotdown_es_sig = \<lparr>params = [], var_kw = False\<rparr>"

definition shotdown_es :: "env \<Rightarrow> pyval coro" where
  "shotdown_es E =
     py_then (call_ext E (Func ''async_connections.get_connection'') [] [] []) (\<lambda>conn.
     py_then (call_ext E (Method conn ''close'') [] [] []) (\<lambda>aw.
     py_then (await E aw) (\<lambda>_.
     py_return PNone)))"

section \<open>Calling and awaiting the four coroutine functions\<close>

text \<open>
  \<open>await f(*args, **kws)\<close>: the arguments are bound to the signature of \<open>f\<close>, then the
  body runs with the bound values.
\<close>

definition call_setup_db :: "env \<Rightarrow> pyval list \<Rightarrow> kwargs \<Rightarrow> pyval coro" where
  "call_setup_db E args kws =
     (case bind_args setup_db_sig args kws of
        Inl e \<Rightarrow> py_raise e
      | Inr (b, extra) \<Rightarrow>
          setup_db E (param b ''username'') (param b ''password'') (param b ''host'')
            (param b ''database'') (param b ''echo'') (param b ''pool_size'')
            (param b ''max_overflow'') (param b ''pool_timeout'') (param b ''pool_recycle'')
            extra)"

definition call_shutdown_db :: "env \<Rightarrow> pyval list \<Rightarrow> kwargs \<Rightarrow> pyval coro" where
  "call_shutdown_db E args kws =
     (case bind_args shutdown_db_sig args kws of
        Inl e \<Rightarrow> py_raise e
      | Inr (b, extra) \<Rightarrow> shutdown_db E)"

definition call_setup_es :: "env \<Rightarrow> pyval list \<Rightarrow> kwargs \<Rightarrow> pyval coro" where
  "call_setup_es E args kws =
     (case bind_args setup_es_sig args kws of
        Inl e \<Rightarrow> py_raise e
      | Inr (b, extra) \<Rightarrow>
          setup_es E (param b ''host'') (param b ''username'') (param b ''password'')
            (param b ''timeout'') (param b ''sniff_on_start'') (param b ''sniff_timeout''))"

definition call_shotdown_es :: "env \<Rightarrow> pyval list \<Rightarrow> kwargs \<Rightarrow> pyval coro" where
  "call_shotdown_es E args kws =
     (case bind_args shotdown_es_sig args kws of
        Inl e \<Rightarrow> py_raise e
      | Inr (b, extra) \<Rightarrow> shotdown_es E)"

section \<open>Reading a trace\<close>

fun calls :: "event list \<Rightarrow> (target \<times> pyval list \<times> kwargs) list" where
  "calls [] = []"
| "calls (Call t args kws r # es) = (t, args, kws) # calls es"
| "calls (Await v n r # es) = calls es"

fun awaits :: "event list \<Rightarrow> pyval list" where
  "awaits [] = []"
| "awaits (Call t args kws r # es) = awaits es"
| "awaits (Await v n r # es) = v # awaits es"

text \<open>The exceptions that the library raised, from a call or from an awaited object.\<close>

fun raised_by_library :: "event list \<Rightarrow> exn list" where
  "raised_by_library [] = []"
| "raised_by_library (Call t args kws (Raised e) # es) = e # raised_by_library es"
| "raised_by_library (Await v n (Raised e) # es) = e # raised_by_library es"
| "raised_by_library (ev # es) = raised_by_library es"

section \<open>A sample environment\<close>

text \<open>
  A library in which everything succeeds: \<open>init_db\<close> and \<open>close_db\<close> hand out
  coroutine objects 1 and 2, the registry holds connection 7 whose \<open>close\<close> hands out
  coroutine object 8; awaiting suspends once and resolves to \<open>None\<close>.
\<close>

definition lib_ok :: env where
  "lib_ok = \<lparr>
     call_fn = (\<lambda>h t args kws.
        if t = Func ''init_db'' then Returned (PObj 1)
        else if t = Func ''close_db'' then Returned (PObj 2)
        else if t = Func ''async_connections.connections.create_connection'' then Returned (PObj 7)
        else if t = Func ''async_connections.get_connection'' then Returned (PObj 7)
        else if t = Method (PObj 7) ''close'' then Returned (PObj 8)
        else Raised (LibError ''AttributeError'')),
     await_fn = (\<lambda>h v. (1, Returned PNone)),
     format_fn = (\<lambda>h v. Raised TypeError)\<rparr>"

text \<open>
  A library in which the database is unreachable and no search connection is
  registered.
\<close>

definition lib_down :: env where
  "lib_down = \<lparr>
     call_fn = (\<lambda>h t args kws.
        if t = Func ''init_db'' then Returned (PObj 1)
        else if t = Func ''close_db'' then Returned (PObj 2)
        else if t = Func ''async_connections.connections.create_connection''
        then Raised (LibError ''ConnectionError'')
        else Raised (LibError ''KeyError'')),
     await_fn = (\<lambda>h v. (2, Raised (LibError ''ConnectionRefusedError''))),
     format_fn = (\<lambda>h v. Raised TypeError)\<rparr>"

text \<open>The value that the first call of a trace passes under a keyword.\<close>

definition kwarg_sent :: "event list \<Rightarrow> string \<Rightarrow> pyval option" where
  "kwarg_sent tr k = (case calls tr of [] \<Rightarrow> None | (t, a, kw) # cs \<Rightarrow> map_of kw k)"



text \<open>The exceptions with which an outcome ends: one or none.\<close>

definition raised_of :: "'a outcome \<Rightarrow> exn list" where
  "raised_of r = (case r of Raised e \<Rightarrow> [e] | _ \<Rightarrow> [])"

text \<open>A library whose coroutines never resolve.\<close>

definition lib_hang :: env where
  "lib_hang = \<lparr>
     call_fn = (\<lambda>h t args kws. Returned (PObj 1)),
     await_fn = (\<lambda>h v. (1, Pending)),
     format_fn = (\<lambda>h v. Raised TypeError)\<rparr>"

section \<open>Facts about binding and about running a body\<close>

lemma fill_Cons_Nil:
  "fill ((m, d') # ps) [] kws = Some b \<Longrightarrow>
   \<exists>v b'. (case map_of kws m of Some v \<Rightarrow> Some v | None \<Rightarrow> d') = Some v \<and>
           fill ps [] kws = Some b' \<and> b = (m, v) # b'"
  by (auto split: option.splits)

lemma fill_Cons_Cons:
  "fill ((m, d') # ps) (a # as) kws = Some b \<Longrightarrow>
   \<exists>b'. fill ps as kws = Some b' \<and> b = (m, a) # b'"
  by auto

lemma fill_keys: "fill ps as kws = Some b \<Longrightarrow> map fst b = map fst ps"
proof (induction ps arbitrary: as b)
  case Nil
  then show ?case by simp
next
  case (Cons p ps)
  obtain m d' where p: "p = (m, d')" by (cases p)
  show ?case
  proof (cases as)
    case Nil
    with Cons.prems p obtain v b' where "fill ps [] kws = Some b'" "b = (m, v) # b'"
      using fill_Cons_Nil by blast
    with Cons.IH p show ?thesis by simp
  next
    case (Cons a as')
    with Cons.prems p obtain b' where "fill ps as' kws = Some b'" "b = (m, a) # b'"
      using fill_Cons_Cons by blast
    with Cons.IH p show ?thesis by simp
  qed
qed

text \<open>The value bound to a parameter: by position, else by keyword, else the default.\<close>

lemma fill_value:
  "fill ps as kws = Some b \<Longrightarrow> distinct (map fst ps) \<Longrightarrow> i < length ps \<Longrightarrow>
   map_of b (fst (ps ! i)) =
     (if i < length as then Some (as ! i)
      else case map_of kws (fst (ps ! i)) of Some v \<Rightarrow> Some v | None \<Rightarrow> snd (ps ! i))"
proof (induction ps arbitrary: as b i)
  case Nil
  then show ?case by simp
next
  case (Cons p ps)
  obtain m d' where p: "p = (m, d')" by (cases p)
  from Cons.prems(2) p have m: "m \<notin> set (map fst ps)" and dps: "distinct (map fst ps)"
    by simp_all
  show ?case
  proof (cases as)
    case Nil
    with Cons.prems(1) p obtain v b' where
      v: "(case map_of kws m of Some v \<Rightarrow> Some v | None \<Rightarrow> d') = Some v" and
      b': "fill ps [] kws = Some b'" and b: "b = (m, v) # b'"
      using fill_Cons_Nil by blast
    show ?thesis
    proof (cases i)
      case 0
      with p b v Nil show ?thesis by (simp split: option.splits)
    next
      case (Suc j)
      with Cons.prems(3) have j: "j < length ps" by simp
      then have "fst (ps ! j) \<in> set (map fst ps)" by simp
      with m have ne: "fst (ps ! j) \<noteq> m" by metis
      from Cons.IH[OF b' dps j] ne show ?thesis
        by (simp add: Suc b Nil split: option.splits)
    qed
  next
    case (Cons a as')
    with Cons.prems(1) p obtain b' where
      b': "fill ps as' kws = Some b'" and b: "b = (m, a) # b'"
      using fill_Cons_Cons by blast
    show ?thesis
    proof (cases i)
      case 0
      with p b Cons show ?thesis by simp
    next
      case (Suc j)
      with Cons.prems(3) have j: "j < length ps" by simp
      then have "fst (ps ! j) \<in> set (map fst ps)" by simp
      with m have ne: "fst (ps ! j) \<noteq> m" by metis
      from Cons.IH[OF b' dps j] ne show ?thesis
        by (simp add: Suc b Cons split: option.splits)
    qed
  qed
qed

lemma fstring_db_url:
  "fstring E (db_url (PStr u) (PStr p) (PStr hst) (PStr d)) h =
     (Returned (''postgresql+asyncpg://'' @ u @ '':'' @ p @ ''@'' @ hst @ ''/'' @ d), [])"
  by (simp add: db_url_def py_then_def py_return_def format_value_def)

lemma call_await_run:
  assumes "distinct (map fst kw)" and "kw = kws @ star"
  shows "py_then (call_ext E t args kws star)
           (\<lambda>aw. py_then (await E aw) (\<lambda>_. py_return PNone)) h =
     (case call_fn E h t args kw of
        Returned aw \<Rightarrow>
          (case await_fn E (h @ [Call t args kw (Returned aw)]) aw of
             (n, r) \<Rightarrow>
               (case r of Returned x \<Rightarrow> Returned PNone | Raised e \<Rightarrow> Raised e
                  | Pending \<Rightarrow> Pending,
                [Call t args kw (Returned aw), Await aw n r]))
      | Raised e \<Rightarrow> (Raised e, [Call t args kw (Raised e)])
      | Pending \<Rightarrow> (Pending, [Call t args kw Pending]))"
  using assms
  by (simp add: py_then_def call_ext_def await_def py_return_def Let_def
      split: outcome.splits prod.splits)

lemma shutdown_db_run:
  "shutdown_db E h =
     (case call_fn E h (Func ''close_db'') [] [] of
        Returned aw \<Rightarrow>
          (case await_fn E (h @ [Call (Func ''close_db'') [] [] (Returned aw)]) aw of
             (n, r) \<Rightarrow>
               (case r of Returned x \<Rightarrow> Returned PNone | Raised e \<Rightarrow> Raised e
                  | Pending \<Rightarrow> Pending,
                [Call (Func ''close_db'') [] [] (Returned aw), Await aw n r]))
      | Raised e \<Rightarrow> (Raised e, [Call (Func ''close_db'') [] [] (Raised e)])
      | Pending \<Rightarrow> (Pending, [Call (Func ''close_db'') [] [] Pending]))"
  unfolding shutdown_db_def
  by (rule call_await_run) simp_all

lemma bind_no_params:
  "bind_args \<lparr>params = [], var_kw = False\<rparr> args kws =
     (if args = [] \<and> kws = [] then Inr ([], []) else Inl TypeError)"
  by (cases kws) (auto simp: bind_args_def Let_def)

lemma bind_argsD:
  assumes "bind_args sg args kws = Inr (b, extra)"
  shows "fill (params sg) args kws = Some b"
    and "extra = filter (\<lambda>kv. fst kv \<notin> set (map fst (params sg))) kws"
    and "distinct (map fst kws)"
    and "length args \<le> length (params sg)"
    and "\<forall>kv \<in> set kws. fst kv \<notin> set (take (length args) (map fst (params sg)))"
  using assms
  by (simp_all add: bind_args_def Let_def list_ex_iff split: if_splits option.splits)

lemma bind_extra_keys:
  assumes "bind_args sg args kws = Inr (b, extra)"
  shows "distinct (map fst extra)" and "\<forall>k \<in> set (map fst extra). k \<notin> set (map fst (params sg))"
  using bind_argsD(2,3)[OF assms] by (auto simp: distinct_map_filter)

lemma param_value:
  assumes "bind_args sg args kws = Inr (b, extra)" and "distinct (map fst (params sg))"
    and "i < length (params sg)"
  shows "map_of b (fst (params sg ! i)) =
     (if i < length args then Some (args ! i)
      else case map_of kws (fst (params sg ! i)) of Some v \<Rightarrow> Some v
           | None \<Rightarrow> snd (params sg ! i))"
  using fill_value[OF bind_argsD(1)[OF assms(1)] assms(2,3)] .

lemma param_positional:
  assumes "bind_args sg args kws = Inr (b, extra)" and "distinct (map fst (params sg))"
    and "i < length args"
  shows "param b (fst (params sg ! i)) = args ! i"
proof -
  from assms(3) bind_argsD(4)[OF assms(1)] have "i < length (params sg)" by simp
  from param_value[OF assms(1,2) this] assms(3) show ?thesis by (simp add: param_def)
qed

lemma param_keyword:
  assumes "bind_args sg args kws = Inr (b, extra)" and "distinct (map fst (params sg))"
    and "n \<in> set (map fst (params sg))" and "map_of kws n = Some v"
  shows "param b n = v"
proof -
  from assms(3) obtain i where i: "i < length (params sg)" and n: "n = fst (params sg ! i)"
    by (auto simp: in_set_conv_nth)
  from assms(4) have "(n, v) \<in> set kws" by (rule map_of_SomeD)
  with bind_argsD(5)[OF assms(1)] have nt: "n \<notin> set (take (length args) (map fst (params sg)))"
    by force
  have "\<not> i < length args"
  proof
    assume l: "i < length args"
    with i have "take (length args) (map fst (params sg)) ! i = n"
      by (simp add: n)
    moreover from l i have "i < length (take (length args) (map fst (params sg)))" by simp
    ultimately have "n \<in> set (take (length args) (map fst (params sg)))"
      by (metis nth_mem)
    with nt show False by simp
  qed
  with param_value[OF assms(1,2) i] assms(4) n show ?thesis by (simp add: param_def)
qed

lemma param_omitted:
  assumes "bind_args sg args kws = Inr (b, extra)" and "distinct (map fst (params sg))"
    and "(n, Some d) \<in> set (params sg)" and "omitted sg n args kws"
  shows "param b n = d"
proof -
  from assms(3) obtain i where i: "i < length (params sg)" and n: "params sg ! i = (n, Some d)"
    by (auto simp: in_set_conv_nth)
  from assms(4) have nt: "n \<notin> set (take (length args) (map fst (params sg)))"
    and nk: "map_of kws n = None"
    by (simp_all add: omitted_def map_of_eq_None_iff)
  have "\<not> i < length args"
  proof
    assume l: "i < length args"
    with i n have "take (length args) (map fst (params sg)) ! i = n"
      by simp
    moreover from l i have "i < length (take (length args) (map fst (params sg)))" by simp
    ultimately have "n \<in> set (take (length args) (map fst (params sg)))"
      by (metis nth_mem)
    with nt show False by simp
  qed
  with param_value[OF assms(1,2) i] nk n show ?thesis by (simp add: param_def)
qed

lemma py_then_pure: "m h = (Returned x, []) \<Longrightarrow> py_then m f h = f x h"
  by (simp add: py_then_def split: prod.splits)

lemma setup_db_sig_names:
  "map fst (params setup_db_sig) =
     [''username'', ''password'', ''host'', ''database'', ''echo'', ''pool_size'',
      ''max_overflow'', ''pool_timeout'', ''pool_recycle'']"
  by (simp add: setup_db_sig_def)

lemma setup_db_sig_distinct: "distinct (map fst (params setup_db_sig))"
  by (simp add: setup_db_sig_names)

lemma setup_db_run:
  assumes "distinct (map fst kw)"
    and "kw = [(''echo'', echo), (''pool_size'', pool_size), (''max_overflow'', max_overflow),
               (''pool_timeout'', pool_timeout), (''pool_recycle'', pool_recycle)] @ extra"
    and "url = ''postgresql+asyncpg://'' @ u @ '':'' @ p @ ''@'' @ hst @ ''/'' @ d"
  shows "setup_db E (PStr u) (PStr p) (PStr hst) (PStr d) echo pool_size max_overflow
           pool_timeout pool_recycle extra h =
     (case call_fn E h (Func ''init_db'') [PStr url] kw of
        Returned aw \<Rightarrow>
          (case await_fn E (h @ [Call (Func ''init_db'') [PStr url] kw (Returned aw)]) aw of
             (n, r) \<Rightarrow>
               (case r of Returned x \<Rightarrow> Returned PNone | Raised e \<Rightarrow> Raised e
                  | Pending \<Rightarrow> Pending,
                [Call (Func ''init_db'') [PStr url] kw (Returned aw), Await aw n r]))
      | Raised e \<Rightarrow> (Raised e, [Call (Func ''init_db'') [PStr url] kw (Raised e)])
      | Pending \<Rightarrow> (Pending, [Call (Func ''init_db'') [PStr url] kw Pending]))"
  unfolding setup_db_def assms(3)
  by (subst py_then_pure[OF fstring_db_url]) (rule call_await_run[OF assms(1,2)])

lemma bound_kwargs_distinct:
  assumes "bind_args setup_db_sig args kws = Inr (b, extra)"
  shows "distinct (map fst ([(''echo'', echo), (''pool_size'', pool_size),
           (''max_overflow'', max_overflow), (''pool_timeout'', pool_timeout),
           (''pool_recycle'', pool_recycle)] @ extra))"
  using bind_extra_keys[OF assms] by (auto simp: setup_db_sig_names)

lemma call_setup_db_run:
  assumes "bind_args setup_db_sig args kws = Inr (b, extra)"
    and "param b ''username'' = PStr u" and "param b ''password'' = PStr p"
    and "param b ''host'' = PStr hst" and "param b ''database'' = PStr d"
    and "kw = [(''echo'', param b ''echo''), (''pool_size'', param b ''pool_size''),
               (''max_overflow'', param b ''max_overflow''),
               (''pool_timeout'', param b ''pool_timeout''),
               (''pool_recycle'', param b ''pool_recycle'')] @ extra"
    and "url = ''postgresql+asyncpg://'' @ u @ '':'' @ p @ ''@'' @ hst @ ''/'' @ d"
  shows "call_setup_db E args kws h =
     (case call_fn E h (Func ''init_db'') [PStr url] kw of
        Returned aw \<Rightarrow>
          (case await_fn E (h @ [Call (Func ''init_db'') [PStr url] kw (Returned aw)]) aw of
             (n, r) \<Rightarrow>
               (case r of Returned x \<Rightarrow> Returned PNone | Raised e \<Rightarrow> Raised e
                  | Pending \<Rightarrow> Pending,
                [Call (Func ''init_db'') [PStr url] kw (Returned aw), Await aw n r]))
      | Raised e \<Rightarrow> (Raised e, [Call (Func ''init_db'') [PStr url] kw (Raised e)])
      | Pending \<Rightarrow> (Pending, [Call (Func ''init_db'') [PStr url] kw Pending]))"
proof -
  have d: "distinct (map fst kw)"
    unfolding assms(6) by (rule bound_kwargs_distinct[OF assms(1)])
  have "call_setup_db E args kws h =
      setup_db E (PStr u) (PStr p) (PStr hst) (PStr d) (param b ''echo'')
        (param b ''pool_size'') (param b ''max_overflow'') (param b ''pool_timeout'')
        (param b ''pool_recycle'') extra h"
    by (simp add: call_setup_db_def assms(1-5))
  also note setup_db_run[OF d assms(6,7)]
  finally show ?thesis .
qed

lemma bind_setup_db_positional:
  "bind_args setup_db_sig [a1, a2, a3, a4] [] =
     Inr ([(''username'', a1), (''password'', a2), (''host'', a3), (''database'', a4),
           (''echo'', PBool False), (''pool_size'', PInt 5), (''max_overflow'', PInt 10),
           (''pool_timeout'', PInt 30), (''pool_recycle'', PInt 3600)], [])"
  by (simp add: bind_args_def setup_db_sig_def)

lemma setup_es_run:
  assumes "kw = [(''hosts'', host), (''verify_certs'', PBool False),
                 (''request_timeout'', timeout), (''sniff_on_start'', sniff_on_start),
                 (''sniff_timeout'', sniff_timeout), (''sniff_on_node_failure'', PBool True),
                 (''http_auth'', PTuple [username, password])]"
    and "t = Func ''async_connections.connections.create_connection''"
  shows "setup_es E host username password timeout sniff_on_start sniff_timeout h =
     (case call_fn E h t [] kw of
        Returned x \<Rightarrow> (Returned PNone, [Call t [] kw (Returned x)])
      | Raised e \<Rightarrow> (Raised e, [Call t [] kw (Raised e)])
      | Pending \<Rightarrow> (Pending, [Call t [] kw Pending]))"
  unfolding assms
  by (simp add: setup_es_def py_then_def call_ext_def py_return_def Let_def
      split: outcome.splits)

lemma setup_es_sig_names:
  "map fst (params setup_es_sig) =
     [''host'', ''username'', ''password'', ''timeout'', ''sniff_on_start'', ''sniff_timeout'']"
  by (simp add: setup_es_sig_def)

lemma setup_es_sig_distinct: "distinct (map fst (params setup_es_sig))"
  by (simp add: setup_es_sig_names)

lemma call_setup_es_bound:
  assumes "bind_args setup_es_sig args kws = Inr (b, extra)"
  shows "call_setup_es E args kws h =
     setup_es E (param b ''host'') (param b ''username'') (param b ''password'')
       (param b ''timeout'') (param b ''sniff_on_start'') (param b ''sniff_timeout'') h"
  by (simp add: call_setup_es_def assms)

lemma kwarg_sent_setup_es:
  "kwarg_sent (snd (setup_es E host username password timeout sniff_on_start sniff_timeout h)) k =
     map_of [(''hosts'', host), (''verify_certs'', PBool False),
             (''request_timeout'', timeout), (''sniff_on_start'', sniff_on_start),
             (''sniff_timeout'', sniff_timeout), (''sniff_on_node_failure'', PBool True),
             (''http_auth'', PTuple [username, password])] k"
  unfolding kwarg_sent_def setup_es_run[OF refl refl]
  by (simp split: outcome.splits)

lemma kwarg_sent_setup_db:
  assumes "bind_args setup_db_sig args kws = Inr (b, extra)"
    and "param b ''username'' = PStr u" and "param b ''password'' = PStr p"
    and "param b ''host'' = PStr hst" and "param b ''database'' = PStr d"
  shows "kwarg_sent (snd (call_setup_db E args kws h)) k =
     map_of ([(''echo'', param b ''echo''), (''pool_size'', param b ''pool_size''),
              (''max_overflow'', param b ''max_overflow''),
              (''pool_timeout'', param b ''pool_timeout''),
              (''pool_recycle'', param b ''pool_recycle'')] @ extra) k"
  unfolding kwarg_sent_def call_setup_db_run[OF assms refl refl]
  by (simp split: outcome.splits prod.splits)

lemma shotdown_es_run:
  assumes "g = Func ''async_connections.get_connection''"
  shows "shotdown_es E h =
     (case call_fn E h g [] [] of
        Returned conn \<Rightarrow>
          (case call_fn E (h @ [Call g [] [] (Returned conn)]) (Method conn ''close'') [] [] of
             Returned aw \<Rightarrow>
               (case await_fn E (h @ [Call g [] [] (Returned conn),
                                      Call (Method conn ''close'') [] [] (Returned aw)]) aw of
                  (n, r) \<Rightarrow>
                    (case r of Returned x \<Rightarrow> Returned PNone | Raised e \<Rightarrow> Raised e
                       | Pending \<Rightarrow> Pending,
                     [Call g [] [] (Returned conn),
                      Call (Method conn ''close'') [] [] (Returned aw), Await aw n r]))
           | Raised e \<Rightarrow>
               (Raised e, [Call g [] [] (Returned conn),
                           Call (Method conn ''close'') [] [] (Raised e)])
           | Pending \<Rightarrow>
               (Pending, [Call g [] [] (Returned conn),
                          Call (Method conn ''close'') [] [] Pending]))
      | Raised e \<Rightarrow> (Raised e, [Call g [] [] (Raised e)])
      | Pending \<Rightarrow> (Pending, [Call g [] [] Pending]))"
  unfolding assms
  by (simp add: shotdown_es_def py_then_def call_ext_def await_def py_return_def Let_def
      split: outcome.splits prod.splits)


section \<open>The claims\<close>

text \<open>
  C5. Every run of \<open>shutdown_db\<close> makes exactly one call to the library, to
  \<open>close_db\<close> with no positional and no keyword argument. Whenever \<open>shutdown_db\<close>
  returns, it returns \<open>None\<close> and the coroutine object that \<open>close_db()\<close> handed
  out has been awaited and has resolved; while that await is pending, \<open>shutdown_db\<close>
  is pending. The function has no parameter: called with any argument it raises
  \<open>TypeError\<close> and reaches no library code.
\<close>

theorem shutdown_db_closes_once:
  "calls (snd (shutdown_db E h)) = [(Func ''close_db'', [], [])] \<and>
   (\<forall>v. fst (shutdown_db E h) = Returned v \<longrightarrow>
      v = PNone \<and>
      (\<exists>aw n x. snd (shutdown_db E h) =
         [Call (Func ''close_db'') [] [] (Returned aw), Await aw n (Returned x)])) \<and>
   (\<forall>aw n. Await aw n Pending \<in> set (snd (shutdown_db E h)) \<longrightarrow>
      fst (shutdown_db E h) = Pending) \<and>
   call_shutdown_db E [] [] h = shutdown_db E h \<and>
   (args \<noteq> [] \<or> kws \<noteq> [] \<longrightarrow> call_shutdown_db E args kws h = (Raised TypeError, []))"
proof -
  have c: "calls (snd (shutdown_db E h)) = [(Func ''close_db'', [], [])]"
    by (simp add: shutdown_db_run split: outcome.splits prod.splits)
  have r: "\<forall>v. fst (shutdown_db E h) = Returned v \<longrightarrow>
      v = PNone \<and>
      (\<exists>aw n x. snd (shutdown_db E h) =
         [Call (Func ''close_db'') [] [] (Returned aw), Await aw n (Returned x)])"
    by (simp add: shutdown_db_run split: outcome.splits prod.splits)
  have p: "\<forall>aw n. Await aw n Pending \<in> set (snd (shutdown_db E h)) \<longrightarrow>
      fst (shutdown_db E h) = Pending"
    by (simp add: shutdown_db_run split: outcome.splits prod.splits)
  have b: "call_shutdown_db E [] [] h = shutdown_db E h"
    by (simp add: call_shutdown_db_def shutdown_db_sig_def bind_no_params)
  have t: "args \<noteq> [] \<or> kws \<noteq> [] \<longrightarrow> call_shutdown_db E args kws h = (Raised TypeError, [])"
    by (auto simp add: call_shutdown_db_def shutdown_db_sig_def bind_no_params py_raise_def)
  from c r p b t show ?thesis by blast
qed

theorem shutdown_db_closes_once_witness:
  "calls (snd (shutdown_db lib_ok [])) = [(Func ''close_db'', [], [])] \<and>
   shutdown_db lib_ok [] =
     (Returned PNone, [Call (Func ''close_db'') [] [] (Returned (PObj 2)),
                       Await (PObj 2) 1 (Returned PNone)]) \<and>
   call_shutdown_db lib_ok [PInt 1] [] [] = (Raised TypeError, [])"
proof -
  have run: "shutdown_db lib_ok [] =
     (Returned PNone, [Call (Func ''close_db'') [] [] (Returned (PObj 2)),
                       Await (PObj 2) 1 (Returned PNone)])"
    by (simp add: shutdown_db_def py_then_def call_ext_def await_def py_return_def lib_ok_def Let_def)
  from shutdown_db_closes_once[of lib_ok "[]" "[PInt 1]" "[]"] run
  show ?thesis by simp
qed

text \<open>
  C1. However the call passes them, when \<open>username\<close>, \<open>password\<close>, \<open>host\<close> and
  \<open>database\<close> are the strings \<open>u\<close>, \<open>p\<close>, \<open>hst\<close> and \<open>d\<close>, \<open>setup_db\<close> makes one
  call to the library, to \<open>init_db\<close>, whose only positional argument is the string
  \<open>postgresql+asyncpg://\<close> followed by \<open>u\<close>, \<open>:\<close>, \<open>p\<close>, \<open>@\<close>, \<open>hst\<close>, \<open>/\<close>
  and \<open>d\<close>.
\<close>

theorem setup_db_url:
  assumes "bind_args setup_db_sig args kws = Inr (b, extra)"
    and "param b ''username'' = PStr u" and "param b ''password'' = PStr p"
    and "param b ''host'' = PStr hst" and "param b ''database'' = PStr d"
  shows "map (\<lambda>(t, a, k). (t, a)) (calls (snd (call_setup_db E args kws h))) =
     [(Func ''init_db'',
       [PStr (''postgresql+asyncpg://'' @ u @ '':'' @ p @ ''@'' @ hst @ ''/'' @ d)])]"
  by (simp add: call_setup_db_run[OF assms refl refl] split: outcome.splits prod.splits)

theorem setup_db_url_witness:
  "map (\<lambda>(t, a, k). (t, a))
     (calls (snd (call_setup_db lib_ok
        [PStr ''u'', PStr ''p'', PStr ''localhost'', PStr ''mydb''] [] []))) =
     [(Func ''init_db'', [PStr ''postgresql+asyncpg://u:p@localhost/mydb''])] \<and>
   map (\<lambda>(t, a, k). (t, a))
     (calls (snd (call_setup_db lib_down
        [PStr ''admin''] [(''host'', PStr ''db:5432''), (''database'', PStr ''app''),
                          (''password'', PStr ''s3cret'')] []))) =
     [(Func ''init_db'', [PStr ''postgresql+asyncpg://admin:s3cret@db:5432/app''])]"
proof -
  have b1: "bind_args setup_db_sig [PStr ''u'', PStr ''p'', PStr ''localhost'', PStr ''mydb''] [] =
      Inr ([(''username'', PStr ''u''), (''password'', PStr ''p''), (''host'', PStr ''localhost''),
            (''database'', PStr ''mydb''), (''echo'', PBool False), (''pool_size'', PInt 5),
            (''max_overflow'', PInt 10), (''pool_timeout'', PInt 30),
            (''pool_recycle'', PInt 3600)], [])"
    by (simp add: bind_args_def setup_db_sig_def)
  have b2: "bind_args setup_db_sig [PStr ''admin'']
        [(''host'', PStr ''db:5432''), (''database'', PStr ''app''),
         (''password'', PStr ''s3cret'')] =
      Inr ([(''username'', PStr ''admin''), (''password'', PStr ''s3cret''),
            (''host'', PStr ''db:5432''), (''database'', PStr ''app''), (''echo'', PBool False),
            (''pool_size'', PInt 5), (''max_overflow'', PInt 10), (''pool_timeout'', PInt 30),
            (''pool_recycle'', PInt 3600)], [])"
    by (simp add: bind_args_def setup_db_sig_def)
  from setup_db_url[OF b1, of "''u''" "''p''" "''localhost''" "''mydb''" lib_ok "[]"]
    setup_db_url[OF b2, of "''admin''" "''s3cret''" "''db:5432''" "''app''" lib_down "[]"]
  show ?thesis by (simp add: param_def)
qed

text \<open>
  C2. In the same call to \<open>init_db\<close> the keyword arguments are, in this order,
  \<open>echo\<close>, \<open>pool_size\<close>, \<open>max_overflow\<close>, \<open>pool_timeout\<close> and \<open>pool_recycle\<close> with
  the values of the parameters of these names, followed by every keyword of the caller
  that is not the name of a parameter, name and value unchanged and in the caller's
  order. The value of such a parameter is the one the caller gave by keyword or by
  position.
\<close>

theorem setup_db_forwards_options:
  assumes "bind_args setup_db_sig args kws = Inr (b, extra)"
    and "param b ''username'' = PStr u" and "param b ''password'' = PStr p"
    and "param b ''host'' = PStr hst" and "param b ''database'' = PStr d"
  shows "map (\<lambda>(t, a, k). (t, k)) (calls (snd (call_setup_db E args kws h))) =
       [(Func ''init_db'',
         [(''echo'', param b ''echo''), (''pool_size'', param b ''pool_size''),
          (''max_overflow'', param b ''max_overflow''),
          (''pool_timeout'', param b ''pool_timeout''),
          (''pool_recycle'', param b ''pool_recycle'')] @
         filter (\<lambda>kv. fst kv \<notin> set (map fst (params setup_db_sig))) kws)] \<and>
     (\<forall>n v. n \<in> set [''echo'', ''pool_size'', ''max_overflow'', ''pool_timeout'',
                     ''pool_recycle''] \<and> map_of kws n = Some v \<longrightarrow> param b n = v) \<and>
     (\<forall>i. i < length args \<longrightarrow> param b (map fst (params setup_db_sig) ! i) = args ! i)"
proof -
  have e: "extra = filter (\<lambda>kv. fst kv \<notin> set (map fst (params setup_db_sig))) kws"
    by (rule bind_argsD(2)[OF assms(1)])
  have c: "map (\<lambda>(t, a, k). (t, k)) (calls (snd (call_setup_db E args kws h))) =
       [(Func ''init_db'',
         [(''echo'', param b ''echo''), (''pool_size'', param b ''pool_size''),
          (''max_overflow'', param b ''max_overflow''),
          (''pool_timeout'', param b ''pool_timeout''),
          (''pool_recycle'', param b ''pool_recycle'')] @ extra)]"
    by (simp add: call_setup_db_run[OF assms refl refl] split: outcome.splits prod.splits)
  have k: "\<forall>n v. n \<in> set [''echo'', ''pool_size'', ''max_overflow'', ''pool_timeout'',
                     ''pool_recycle''] \<and> map_of kws n = Some v \<longrightarrow> param b n = v"
  proof (intro allI impI, elim conjE)
    fix n v
    assume n: "n \<in> set [''echo'', ''pool_size'', ''max_overflow'', ''pool_timeout'',
                     ''pool_recycle'']" and v: "map_of kws n = Some v"
    from n have "n \<in> set (map fst (params setup_db_sig))"
      unfolding setup_db_sig_names by auto
    from param_keyword[OF assms(1) setup_db_sig_distinct this v] show "param b n = v" .
  qed
  have p: "\<forall>i. i < length args \<longrightarrow> param b (map fst (params setup_db_sig) ! i) = args ! i"
  proof (intro allI impI)
    fix i assume i: "i < length args"
    with bind_argsD(4)[OF assms(1)] have "i < length (params setup_db_sig)" by simp
    then have "map fst (params setup_db_sig) ! i = fst (params setup_db_sig ! i)" by simp
    with param_positional[OF assms(1) setup_db_sig_distinct i]
    show "param b (map fst (params setup_db_sig) ! i) = args ! i" by simp
  qed
  from c e k p show ?thesis by simp
qed

theorem setup_db_forwards_options_witness:
  "map (\<lambda>(t, a, k). (t, k))
     (calls (snd (call_setup_db lib_ok
        [PStr ''u'', PStr ''p'', PStr ''localhost'', PStr ''mydb'', PBool True]
        [(''connect_args'', PObj 3), (''pool_size'', PInt 20), (''future'', PBool True),
         (''pool_recycle'', PInt 60)] []))) =
     [(Func ''init_db'',
       [(''echo'', PBool True), (''pool_size'', PInt 20), (''max_overflow'', PInt 10),
        (''pool_timeout'', PInt 30), (''pool_recycle'', PInt 60),
        (''connect_args'', PObj 3), (''future'', PBool True)])]"
proof -
  have b1: "bind_args setup_db_sig
        [PStr ''u'', PStr ''p'', PStr ''localhost'', PStr ''mydb'', PBool True]
        [(''connect_args'', PObj 3), (''pool_size'', PInt 20), (''future'', PBool True),
         (''pool_recycle'', PInt 60)] =
      Inr ([(''username'', PStr ''u''), (''password'', PStr ''p''), (''host'', PStr ''localhost''),
            (''database'', PStr ''mydb''), (''echo'', PBool True), (''pool_size'', PInt 20),
            (''max_overflow'', PInt 10), (''pool_timeout'', PInt 30),
            (''pool_recycle'', PInt 60)],
           [(''connect_args'', PObj 3), (''future'', PBool True)])"
    by (simp add: bind_args_def setup_db_sig_def)
  from setup_db_forwards_options[OF b1, of "''u''" "''p''" "''localhost''" "''mydb''" lib_ok "[]"]
  show ?thesis by (simp add: param_def setup_db_sig_names)
qed

text \<open>
  C3. Every run of \<open>setup_es\<close> makes exactly one call to the library, to
  \<open>create_connection\<close> of the connection registry, with no positional argument and the
  keyword arguments \<open>hosts\<close> (the host), \<open>verify_certs=False\<close>, \<open>request_timeout\<close> (the
  timeout), \<open>sniff_on_start\<close> and \<open>sniff_timeout\<close> (unchanged),
  \<open>sniff_on_node_failure=True\<close> and \<open>http_auth\<close>, the pair of username and password.
\<close>

theorem setup_es_forwards:
  "calls (snd (setup_es E host username password timeout sniff_on_start sniff_timeout h)) =
     [(Func ''async_connections.connections.create_connection'', [],
       [(''hosts'', host), (''verify_certs'', PBool False), (''request_timeout'', timeout),
        (''sniff_on_start'', sniff_on_start), (''sniff_timeout'', sniff_timeout),
        (''sniff_on_node_failure'', PBool True),
        (''http_auth'', PTuple [username, password])])]"
  by (simp add: setup_es_run[OF refl refl] split: outcome.splits)

theorem setup_es_forwards_witness:
  "calls (snd (call_setup_es lib_down
       [PStr ''https://es:9200'', PStr ''elastic'']
       [(''sniff_timeout'', PFloat 0x3FE0000000000000), (''password'', PStr ''pw''),
        (''sniff_on_start'', PBool False)] [])) =
     [(Func ''async_connections.connections.create_connection'', [],
       [(''hosts'', PStr ''https://es:9200''), (''verify_certs'', PBool False),
        (''request_timeout'', PInt 3), (''sniff_on_start'', PBool False),
        (''sniff_timeout'', PFloat 0x3FE0000000000000),
        (''sniff_on_node_failure'', PBool True),
        (''http_auth'', PTuple [PStr ''elastic'', PStr ''pw''])])]"
proof -
  have b1: "bind_args setup_es_sig [PStr ''https://es:9200'', PStr ''elastic'']
       [(''sniff_timeout'', PFloat 0x3FE0000000000000), (''password'', PStr ''pw''),
        (''sniff_on_start'', PBool False)] =
     Inr ([(''host'', PStr ''https://es:9200''), (''username'', PStr ''elastic''),
           (''password'', PStr ''pw''), (''timeout'', PInt 3),
           (''sniff_on_start'', PBool False),
           (''sniff_timeout'', PFloat 0x3FE0000000000000)], [])"
    by (simp add: bind_args_def setup_es_sig_def)
  show ?thesis
    unfolding call_setup_es_bound[OF b1]
    by (simp add: setup_es_forwards param_def)
qed

text \<open>
  C4. In a call of \<open>setup_db\<close> that gives \<open>echo\<close>, \<open>pool_size\<close>, \<open>max_overflow\<close>,
  \<open>pool_timeout\<close> or \<open>pool_recycle\<close> neither by position nor by keyword, \<open>init_db\<close>
  receives \<open>False\<close>, 5, 10, 30 and 3600 for it. In a call of \<open>setup_es\<close> that omits
  \<open>timeout\<close>, \<open>sniff_on_start\<close> or \<open>sniff_timeout\<close>, \<open>create_connection\<close> receives
  \<open>request_timeout=3\<close>, \<open>sniff_on_start=True\<close> and \<open>sniff_timeout=3\<close>.
\<close>

theorem defaults_used_when_omitted:
  assumes db: "bind_args setup_db_sig args kws = Inr (b, extra)"
    and "param b ''username'' = PStr u" and "param b ''password'' = PStr p"
    and "param b ''host'' = PStr hst" and "param b ''database'' = PStr d"
    and es: "bind_args setup_es_sig args' kws' = Inr (b', extra')"
  shows
    "(omitted setup_db_sig ''echo'' args kws \<longrightarrow>
        kwarg_sent (snd (call_setup_db E args kws h)) ''echo'' = Some (PBool False)) \<and>
     (omitted setup_db_sig ''pool_size'' args kws \<longrightarrow>
        kwarg_sent (snd (call_setup_db E args kws h)) ''pool_size'' = Some (PInt 5)) \<and>
     (omitted setup_db_sig ''max_overflow'' args kws \<longrightarrow>
        kwarg_sent (snd (call_setup_db E args kws h)) ''max_overflow'' = Some (PInt 10)) \<and>
     (omitted setup_db_sig ''pool_timeout'' args kws \<longrightarrow>
        kwarg_sent (snd (call_setup_db E args kws h)) ''pool_timeout'' = Some (PInt 30)) \<and>
     (omitted setup_db_sig ''pool_recycle'' args kws \<longrightarrow>
        kwarg_sent (snd (call_setup_db E args kws h)) ''pool_recycle'' = Some (PInt 3600)) \<and>
     (omitted setup_es_sig ''timeout'' args' kws' \<longrightarrow>
        kwarg_sent (snd (call_setup_es E' args' kws' h')) ''request_timeout'' = Some (PInt 3)) \<and>
     (omitted setup_es_sig ''sniff_on_start'' args' kws' \<longrightarrow>
        kwarg_sent (snd (call_setup_es E' args' kws' h')) ''sniff_on_start'' =
          Some (PBool True)) \<and>
     (omitted setup_es_sig ''sniff_timeout'' args' kws' \<longrightarrow>
        kwarg_sent (snd (call_setup_es E' args' kws' h')) ''sniff_timeout'' = Some (PInt 3))"
proof -
  have d: "omitted setup_db_sig n args kws \<Longrightarrow> (n, Some v) \<in> set (params setup_db_sig) \<Longrightarrow>
      param b n = v" for n v
    by (rule param_omitted[OF db setup_db_sig_distinct])
  have e: "omitted setup_es_sig n args' kws' \<Longrightarrow> (n, Some v) \<in> set (params setup_es_sig) \<Longrightarrow>
      param b' n = v" for n v
    by (rule param_omitted[OF es setup_es_sig_distinct])
  have d1: "omitted setup_db_sig ''echo'' args kws \<longrightarrow>
        kwarg_sent (snd (call_setup_db E args kws h)) ''echo'' = Some (PBool False)"
    using d[of "''echo''" "PBool False"]
    by (simp add: kwarg_sent_setup_db[OF assms(1-5)] setup_db_sig_def)
  have d2: "omitted setup_db_sig ''pool_size'' args kws \<longrightarrow>
        kwarg_sent (snd (call_setup_db E args kws h)) ''pool_size'' = Some (PInt 5)"
    using d[of "''pool_size''" "PInt 5"]
    by (simp add: kwarg_sent_setup_db[OF assms(1-5)] setup_db_sig_def)
  have d3: "omitted setup_db_sig ''max_overflow'' args kws \<longrightarrow>
        kwarg_sent (snd (call_setup_db E args kws h)) ''max_overflow'' = Some (PInt 10)"
    using d[of "''max_overflow''" "PInt 10"]
    by (simp add: kwarg_sent_setup_db[OF assms(1-5)] setup_db_sig_def)
  have d4: "omitted setup_db_sig ''pool_timeout'' args kws \<longrightarrow>
        kwarg_sent (snd (call_setup_db E args kws h)) ''pool_timeout'' = Some (PInt 30)"
    using d[of "''pool_timeout''" "PInt 30"]
    by (simp add: kwarg_sent_setup_db[OF assms(1-5)] setup_db_sig_def)
  have d5: "omitted setup_db_sig ''pool_recycle'' args kws \<longrightarrow>
        kwarg_sent (snd (call_setup_db E args kws h)) ''pool_recycle'' = Some (PInt 3600)"
    using d[of "''pool_recycle''" "PInt 3600"]
    by (simp add: kwarg_sent_setup_db[OF assms(1-5)] setup_db_sig_def)
  have e1: "omitted setup_es_sig ''timeout'' args' kws' \<longrightarrow>
        kwarg_sent (snd (call_setup_es E' args' kws' h')) ''request_timeout'' = Some (PInt 3)"
    using e[of "''timeout''" "PInt 3"]
    by (simp add: call_setup_es_bound[OF es] kwarg_sent_setup_es setup_es_sig_def)
  have e2: "omitted setup_es_sig ''sniff_on_start'' args' kws' \<longrightarrow>
        kwarg_sent (snd (call_setup_es E' args' kws' h')) ''sniff_on_start'' =
          Some (PBool True)"
    using e[of "''sniff_on_start''" "PBool True"]
    by (simp add: call_setup_es_bound[OF es] kwarg_sent_setup_es setup_es_sig_def)
  have e3: "omitted setup_es_sig ''sniff_timeout'' args' kws' \<longrightarrow>
        kwarg_sent (snd (call_setup_es E' args' kws' h')) ''sniff_timeout'' = Some (PInt 3)"
    using e[of "''sniff_timeout''" "PInt 3"]
    by (simp add: call_setup_es_bound[OF es] kwarg_sent_setup_es setup_es_sig_def)
  from d1 d2 d3 d4 d5 e1 e2 e3 show ?thesis by blast
qed

theorem defaults_used_when_omitted_witness:
  "kwarg_sent (snd (call_setup_db lib_ok
      [PStr ''u'', PStr ''p'', PStr ''localhost'', PStr ''mydb''] [] [])) ''echo'' =
     Some (PBool False) \<and>
   kwarg_sent (snd (call_setup_db lib_ok
      [PStr ''u'', PStr ''p'', PStr ''localhost'', PStr ''mydb''] [] [])) ''pool_size'' =
     Some (PInt 5) \<and>
   kwarg_sent (snd (call_setup_db lib_ok
      [PStr ''u'', PStr ''p'', PStr ''localhost'', PStr ''mydb''] [] [])) ''max_overflow'' =
     Some (PInt 10) \<and>
   kwarg_sent (snd (call_setup_db lib_ok
      [PStr ''u'', PStr ''p'', PStr ''localhost'', PStr ''mydb''] [] [])) ''pool_timeout'' =
     Some (PInt 30) \<and>
   kwarg_sent (snd (call_setup_db lib_ok
      [PStr ''u'', PStr ''p'', PStr ''localhost'', PStr ''mydb''] [] [])) ''pool_recycle'' =
     Some (PInt 3600) \<and>
   kwarg_sent (snd (call_setup_es lib_ok
      [PStr ''https://es:9200'', PStr ''elastic'', PStr ''pw''] [] [])) ''request_timeout'' =
     Some (PInt 3) \<and>
   kwarg_sent (snd (call_setup_es lib_ok
      [PStr ''https://es:9200'', PStr ''elastic'', PStr ''pw''] [] [])) ''sniff_on_start'' =
     Some (PBool True) \<and>
   kwarg_sent (snd (call_setup_es lib_ok
      [PStr ''https://es:9200'', PStr ''elastic'', PStr ''pw''] [] [])) ''sniff_timeout'' =
     Some (PInt 3)"
proof -
  have b1: "bind_args setup_db_sig [PStr ''u'', PStr ''p'', PStr ''localhost'', PStr ''mydb''] [] =
      Inr ([(''username'', PStr ''u''), (''password'', PStr ''p''), (''host'', PStr ''localhost''),
            (''database'', PStr ''mydb''), (''echo'', PBool False), (''pool_size'', PInt 5),
            (''max_overflow'', PInt 10), (''pool_timeout'', PInt 30),
            (''pool_recycle'', PInt 3600)], [])"
    by (rule bind_setup_db_positional)
  have b2: "bind_args setup_es_sig [PStr ''https://es:9200'', PStr ''elastic'', PStr ''pw''] [] =
      Inr ([(''host'', PStr ''https://es:9200''), (''username'', PStr ''elastic''),
            (''password'', PStr ''pw''), (''timeout'', PInt 3),
            (''sniff_on_start'', PBool True), (''sniff_timeout'', PInt 3)], [])"
    by (simp add: bind_args_def setup_es_sig_def)
  have o1: "omitted setup_db_sig n [PStr ''u'', PStr ''p'', PStr ''localhost'', PStr ''mydb''] []"
    if "n \<in> {''echo'', ''pool_size'', ''max_overflow'', ''pool_timeout'', ''pool_recycle''}"
    for n
    using that by (auto simp: omitted_def setup_db_sig_names)
  have o2: "omitted setup_es_sig n [PStr ''https://es:9200'', PStr ''elastic'', PStr ''pw''] []"
    if "n \<in> {''timeout'', ''sniff_on_start'', ''sniff_timeout''}" for n
    using that by (auto simp: omitted_def setup_es_sig_names)
  from defaults_used_when_omitted[OF b1 _ _ _ _ b2,
      of "''u''" "''p''" "''localhost''" "''mydb''" lib_ok "[]" lib_ok "[]"]
  show ?thesis by (simp add: param_def o1 o2)
qed

text \<open>
  C6. Every run of \<open>shotdown_es\<close> first calls \<open>get_connection\<close> of the registry with no
  argument, which is how the library is asked for its default connection. When that
  call returns a connection, the only other call is \<open>close\<close> of this very connection,
  with no argument, made once; the object \<open>close()\<close> hands out is the one object that
  is awaited. Every call of the run is either the fetch or \<open>close\<close> of the fetched
  connection. Whenever \<open>shotdown_es\<close> returns, it returns \<open>None\<close> after the fetch, the
  \<open>close\<close> and the resolved await, in this order.
\<close>

theorem shotdown_es_closes_default:
  "take 1 (calls (snd (shotdown_es E h))) =
     [(Func ''async_connections.get_connection'', [], [])] \<and>
   (\<forall>conn. call_fn E h (Func ''async_connections.get_connection'') [] [] = Returned conn \<longrightarrow>
      calls (snd (shotdown_es E h)) =
        [(Func ''async_connections.get_connection'', [], []),
         (Method conn ''close'', [], [])]) \<and>
   (\<forall>t a k. (t, a, k) \<in> set (calls (snd (shotdown_es E h))) \<longrightarrow>
      t = Func ''async_connections.get_connection'' \<or>
      (\<exists>conn. call_fn E h (Func ''async_connections.get_connection'') [] [] = Returned conn \<and>
         t = Method conn ''close'')) \<and>
   (\<forall>t a k aw. Call t a k (Returned aw) \<in> set (snd (shotdown_es E h)) \<and>
        t \<noteq> Func ''async_connections.get_connection'' \<longrightarrow>
      awaits (snd (shotdown_es E h)) = [aw]) \<and>
   (\<forall>v. fst (shotdown_es E h) = Returned v \<longrightarrow>
      v = PNone \<and>
      (\<exists>conn aw n x. snd (shotdown_es E h) =
         [Call (Func ''async_connections.get_connection'') [] [] (Returned conn),
          Call (Method conn ''close'') [] [] (Returned aw), Await aw n (Returned x)]))"
proof -
  let ?g = "Func ''async_connections.get_connection''"
  have 1: "take 1 (calls (snd (shotdown_es E h))) = [(?g, [], [])]"
    by (auto simp add: shotdown_es_run[OF refl] split: outcome.splits prod.splits)
  have 2: "\<forall>conn. call_fn E h ?g [] [] = Returned conn \<longrightarrow>
      calls (snd (shotdown_es E h)) = [(?g, [], []), (Method conn ''close'', [], [])]"
    by (auto simp add: shotdown_es_run[OF refl] split: outcome.splits prod.splits)
  have 3: "\<forall>t a k. (t, a, k) \<in> set (calls (snd (shotdown_es E h))) \<longrightarrow>
      t = ?g \<or> (\<exists>conn. call_fn E h ?g [] [] = Returned conn \<and> t = Method conn ''close'')"
    by (auto simp add: shotdown_es_run[OF refl] split: outcome.splits prod.splits)
  have 4: "\<forall>t a k aw. Call t a k (Returned aw) \<in> set (snd (shotdown_es E h)) \<and> t \<noteq> ?g \<longrightarrow>
      awaits (snd (shotdown_es E h)) = [aw]"
    by (auto simp add: shotdown_es_run[OF refl] split: outcome.splits prod.splits)
  have 5: "\<forall>v. fst (shotdown_es E h) = Returned v \<longrightarrow>
      v = PNone \<and>
      (\<exists>conn aw n x. snd (shotdown_es E h) =
         [Call ?g [] [] (Returned conn),
          Call (Method conn ''close'') [] [] (Returned aw), Await aw n (Returned x)])"
    by (auto simp add: shotdown_es_run[OF refl] split: outcome.splits prod.splits)
  from 1 2 3 4 5 show ?thesis by blast
qed

theorem shotdown_es_closes_default_witness:
  "shotdown_es lib_ok [] =
     (Returned PNone,
      [Call (Func ''async_connections.get_connection'') [] [] (Returned (PObj 7)),
       Call (Method (PObj 7) ''close'') [] [] (Returned (PObj 8)),
       Await (PObj 8) 1 (Returned PNone)]) \<and>
   calls (snd (shotdown_es lib_ok [])) =
     [(Func ''async_connections.get_connection'', [], []),
      (Method (PObj 7) ''close'', [], [])] \<and>
   awaits (snd (shotdown_es lib_ok [])) = [PObj 8] \<and>
   shotdown_es lib_down [] =
     (Raised (LibError ''KeyError''),
      [Call (Func ''async_connections.get_connection'') [] [] (Raised (LibError ''KeyError''))])"
proof -
  have run: "shotdown_es lib_ok [] =
     (Returned PNone,
      [Call (Func ''async_connections.get_connection'') [] [] (Returned (PObj 7)),
       Call (Method (PObj 7) ''close'') [] [] (Returned (PObj 8)),
       Await (PObj 8) 1 (Returned PNone)])"
    by (simp add: shotdown_es_run[OF refl] lib_ok_def)
  have down: "shotdown_es lib_down [] =
     (Raised (LibError ''KeyError''),
      [Call (Func ''async_connections.get_connection'') [] [] (Raised (LibError ''KeyError''))])"
    by (simp add: shotdown_es_run[OF refl] lib_down_def)
  have g: "call_fn lib_ok [] (Func ''async_connections.get_connection'') [] [] = Returned (PObj 7)"
    by (simp add: lib_ok_def)
  from shotdown_es_closes_default[of lib_ok "[]"] g run down
  show ?thesis by simp
qed

text \<open>
  C7. In a run of any of the four operations, the exceptions that the library raised
  (from a call or from an awaited object) are exactly the exceptions with which the
  operation ends: when the library raises \<open>e\<close> the operation raises this same \<open>e\<close>,
  the library raises at most once (nothing is retried), and when the library raises
  nothing the operation raises nothing. For \<open>setup_db\<close> this is stated for calls that
  fit its signature with strings for \<open>username\<close>, \<open>password\<close>, \<open>host\<close> and
  \<open>database\<close>, for \<open>setup_es\<close> for calls that fit its signature.
\<close>

theorem library_errors_propagate:
  assumes "bind_args setup_db_sig args kws = Inr (b, extra)"
    and "param b ''username'' = PStr u" and "param b ''password'' = PStr p"
    and "param b ''host'' = PStr hst" and "param b ''database'' = PStr d"
    and "bind_args setup_es_sig args' kws' = Inr (b', extra')"
  shows
    "raised_by_library (snd (call_setup_db E args kws h)) =
       raised_of (fst (call_setup_db E args kws h)) \<and>
     raised_by_library (snd (call_setup_es E args' kws' h)) =
       raised_of (fst (call_setup_es E args' kws' h)) \<and>
     raised_by_library (snd (call_shutdown_db E [] [] h)) =
       raised_of (fst (call_shutdown_db E [] [] h)) \<and>
     raised_by_library (snd (call_shotdown_es E [] [] h)) =
       raised_of (fst (call_shotdown_es E [] [] h))"
proof -
  have 1: "raised_by_library (snd (call_setup_db E args kws h)) =
       raised_of (fst (call_setup_db E args kws h))"
    by (simp add: call_setup_db_run[OF assms(1-5) refl refl] raised_of_def
        split: outcome.splits prod.splits)
  have 2: "raised_by_library (snd (call_setup_es E args' kws' h)) =
       raised_of (fst (call_setup_es E args' kws' h))"
    by (simp add: call_setup_es_bound[OF assms(6)] setup_es_run[OF refl refl] raised_of_def
        split: outcome.splits)
  have 3: "raised_by_library (snd (call_shutdown_db E [] [] h)) =
       raised_of (fst (call_shutdown_db E [] [] h))"
    by (simp add: call_shutdown_db_def shutdown_db_sig_def bind_no_params shutdown_db_run
        raised_of_def split: outcome.splits prod.splits)
  have 4: "raised_by_library (snd (call_shotdown_es E [] [] h)) =
       raised_of (fst (call_shotdown_es E [] [] h))"
    by (simp add: call_shotdown_es_def shotdown_es_sig_def bind_no_params
        shotdown_es_run[OF refl] raised_of_def split: outcome.splits prod.splits)
  from 1 2 3 4 show ?thesis by simp
qed

theorem library_errors_propagate_witness:
  "raised_by_library (snd (call_setup_db lib_down
       [PStr ''u'', PStr ''p'', PStr ''localhost'', PStr ''mydb''] [] [])) =
     [LibError ''ConnectionRefusedError''] \<and>
   fst (call_setup_db lib_down
       [PStr ''u'', PStr ''p'', PStr ''localhost'', PStr ''mydb''] [] []) =
     Raised (LibError ''ConnectionRefusedError'') \<and>
   fst (call_setup_es lib_down
       [PStr ''https://es:9200'', PStr ''elastic'', PStr ''pw''] [] []) =
     Raised (LibError ''ConnectionError'') \<and>
   fst (call_shutdown_db lib_down [] [] []) = Raised (LibError ''ConnectionRefusedError'') \<and>
   fst (call_shotdown_es lib_down [] [] []) = Raised (LibError ''KeyError'') \<and>
   raised_by_library (snd (call_shotdown_es lib_ok [] [] [])) = [] \<and>
   fst (call_shotdown_es lib_ok [] [] []) = Returned PNone"
proof -
  have b1: "bind_args setup_db_sig [PStr ''u'', PStr ''p'', PStr ''localhost'', PStr ''mydb''] [] =
      Inr ([(''username'', PStr ''u''), (''password'', PStr ''p''), (''host'', PStr ''localhost''),
            (''database'', PStr ''mydb''), (''echo'', PBool False), (''pool_size'', PInt 5),
            (''max_overflow'', PInt 10), (''pool_timeout'', PInt 30),
            (''pool_recycle'', PInt 3600)], [])"
    by (rule bind_setup_db_positional)
  have b2: "bind_args setup_es_sig [PStr ''https://es:9200'', PStr ''elastic'', PStr ''pw''] [] =
      Inr ([(''host'', PStr ''https://es:9200''), (''username'', PStr ''elastic''),
            (''password'', PStr ''pw''), (''timeout'', PInt 3),
            (''sniff_on_start'', PBool True), (''sniff_timeout'', PInt 3)], [])"
    by (simp add: bind_args_def setup_es_sig_def)
  have r1: "fst (call_setup_db lib_down
       [PStr ''u'', PStr ''p'', PStr ''localhost'', PStr ''mydb''] [] []) =
     Raised (LibError ''ConnectionRefusedError'')"
    by (simp add: call_setup_db_run[OF b1 _ _ _ _ refl refl] param_def lib_down_def)
  have r2: "fst (call_setup_es lib_down
       [PStr ''https://es:9200'', PStr ''elastic'', PStr ''pw''] [] []) =
     Raised (LibError ''ConnectionError'')"
    by (simp add: call_setup_es_bound[OF b2] setup_es_run[OF refl refl] lib_down_def)
  have r3: "fst (call_shutdown_db lib_down [] [] []) = Raised (LibError ''ConnectionRefusedError'')"
    by (simp add: call_shutdown_db_def shutdown_db_sig_def bind_no_params shutdown_db_run
        lib_down_def)
  have r4: "fst (call_shotdown_es lib_down [] [] []) = Raised (LibError ''KeyError'')"
    by (simp add: call_shotdown_es_def shotdown_es_sig_def bind_no_params
        shotdown_es_run[OF refl] lib_down_def)
  have r5: "fst (call_shotdown_es lib_ok [] [] []) = Returned PNone"
    by (simp add: call_shotdown_es_def shotdown_es_sig_def bind_no_params
        shotdown_es_run[OF refl] lib_ok_def)
  from library_errors_propagate[OF b1 _ _ _ _ b2,
      of "''u''" "''p''" "''localhost''" "''mydb''" lib_down "[]"]
  have "raised_by_library (snd (call_setup_db lib_down
       [PStr ''u'', PStr ''p'', PStr ''localhost'', PStr ''mydb''] [] [])) =
     [LibError ''ConnectionRefusedError'']"
    by (simp add: param_def r1 raised_of_def)
  moreover from library_errors_propagate[OF b1 _ _ _ _ b2,
      of "''u''" "''p''" "''localhost''" "''mydb''" lib_ok "[]"]
  have "raised_by_library (snd (call_shotdown_es lib_ok [] [] [])) = []"
    by (simp add: param_def r5 raised_of_def)
  ultimately show ?thesis using r1 r2 r3 r4 r5 by simp
qed

text \<open>
  C8. Whenever \<open>setup_db\<close> returns, its trace is the call to \<open>init_db\<close>, which handed
  out an object, followed by the await of this object, resolved: the await is complete
  before \<open>setup_db\<close> is. The object that \<open>init_db\<close> hands out is the one awaited
  object of the run, and while its await is pending \<open>setup_db\<close> is pending: it does
  not return.
\<close>

theorem setup_db_awaits_init_db:
  assumes "bind_args setup_db_sig args kws = Inr (b, extra)"
    and "param b ''username'' = PStr u" and "param b ''password'' = PStr p"
    and "param b ''host'' = PStr hst" and "param b ''database'' = PStr d"
  shows
    "(\<forall>v. fst (call_setup_db E args kws h) = Returned v \<longrightarrow>
        v = PNone \<and>
        (\<exists>a k aw n x. snd (call_setup_db E args kws h) =
           [Call (Func ''init_db'') a k (Returned aw), Await aw n (Returned x)])) \<and>
     (\<forall>t a k aw. Call t a k (Returned aw) \<in> set (snd (call_setup_db E args kws h)) \<longrightarrow>
        awaits (snd (call_setup_db E args kws h)) = [aw]) \<and>
     (\<forall>aw n. Await aw n Pending \<in> set (snd (call_setup_db E args kws h)) \<longrightarrow>
        fst (call_setup_db E args kws h) = Pending)"
proof -
  note run = call_setup_db_run[OF assms refl refl]
  have 1: "\<forall>v. fst (call_setup_db E args kws h) = Returned v \<longrightarrow>
        v = PNone \<and>
        (\<exists>a k aw n x. snd (call_setup_db E args kws h) =
           [Call (Func ''init_db'') a k (Returned aw), Await aw n (Returned x)])"
    by (auto simp add: run split: outcome.splits prod.splits)
  have 2: "\<forall>t a k aw. Call t a k (Returned aw) \<in> set (snd (call_setup_db E args kws h)) \<longrightarrow>
        awaits (snd (call_setup_db E args kws h)) = [aw]"
    by (auto simp add: run split: outcome.splits prod.splits)
  have 3: "\<forall>aw n. Await aw n Pending \<in> set (snd (call_setup_db E args kws h)) \<longrightarrow>
        fst (call_setup_db E args kws h) = Pending"
    by (auto simp add: run split: outcome.splits prod.splits)
  from 1 2 3 show ?thesis by blast
qed

theorem setup_db_awaits_init_db_witness:
  "call_setup_db lib_ok [PStr ''u'', PStr ''p'', PStr ''localhost'', PStr ''mydb''] [] [] =
     (Returned PNone,
      [Call (Func ''init_db'') [PStr ''postgresql+asyncpg://u:p@localhost/mydb'']
         [(''echo'', PBool False), (''pool_size'', PInt 5), (''max_overflow'', PInt 10),
          (''pool_timeout'', PInt 30), (''pool_recycle'', PInt 3600)] (Returned (PObj 1)),
       Await (PObj 1) 1 (Returned PNone)]) \<and>
   awaits (snd (call_setup_db lib_ok
     [PStr ''u'', PStr ''p'', PStr ''localhost'', PStr ''mydb''] [] [])) = [PObj 1] \<and>
   snd (call_setup_db lib_hang
     [PStr ''u'', PStr ''p'', PStr ''localhost'', PStr ''mydb''] [] []) =
     [Call (Func ''init_db'') [PStr ''postgresql+asyncpg://u:p@localhost/mydb'']
         [(''echo'', PBool False), (''pool_size'', PInt 5), (''max_overflow'', PInt 10),
          (''pool_timeout'', PInt 30), (''pool_recycle'', PInt 3600)] (Returned (PObj 1)),
      Await (PObj 1) 1 Pending] \<and>
   fst (call_setup_db lib_hang
     [PStr ''u'', PStr ''p'', PStr ''localhost'', PStr ''mydb''] [] []) = Pending"
proof -
  have b1: "bind_args setup_db_sig [PStr ''u'', PStr ''p'', PStr ''localhost'', PStr ''mydb''] [] =
      Inr ([(''username'', PStr ''u''), (''password'', PStr ''p''), (''host'', PStr ''localhost''),
            (''database'', PStr ''mydb''), (''echo'', PBool False), (''pool_size'', PInt 5),
            (''max_overflow'', PInt 10), (''pool_timeout'', PInt 30),
            (''pool_recycle'', PInt 3600)], [])"
    by (rule bind_setup_db_positional)
  have ok: "call_setup_db lib_ok [PStr ''u'', PStr ''p'', PStr ''localhost'', PStr ''mydb''] [] [] =
     (Returned PNone,
      [Call (Func ''init_db'') [PStr ''postgresql+asyncpg://u:p@localhost/mydb'']
         [(''echo'', PBool False), (''pool_size'', PInt 5), (''max_overflow'', PInt 10),
          (''pool_timeout'', PInt 30), (''pool_recycle'', PInt 3600)] (Returned (PObj 1)),
       Await (PObj 1) 1 (Returned PNone)])"
    by (simp add: call_setup_db_run[OF b1 _ _ _ _ refl refl] param_def lib_ok_def)
  have hang: "snd (call_setup_db lib_hang
     [PStr ''u'', PStr ''p'', PStr ''localhost'', PStr ''mydb''] [] []) =
     [Call (Func ''init_db'') [PStr ''postgresql+asyncpg://u:p@localhost/mydb'']
         [(''echo'', PBool False), (''pool_size'', PInt 5), (''max_overflow'', PInt 10),
          (''pool_timeout'', PInt 30), (''pool_recycle'', PInt 3600)] (Returned (PObj 1)),
      Await (PObj 1) 1 Pending]"
    by (simp add: call_setup_db_run[OF b1 _ _ _ _ refl refl] param_def lib_hang_def)
  from setup_db_awaits_init_db[OF b1, of "''u''" "''p''" "''localhost''" "''mydb''" lib_hang "[]"]
  have "fst (call_setup_db lib_hang
     [PStr ''u'', PStr ''p'', PStr ''localhost'', PStr ''mydb''] [] []) = Pending"
    by (simp add: param_def hang)
  with ok hang show ?thesis by simp
qed






end
